theory Spec2Isabelle
  imports Main "HOL-Library.Sublist" "HOL-Library.Char_ord" "HOL-Library.List_Lexorder"
begin

section \<open>Profile kinds and sessions (hooks.go)\<close>

text \<open>
  \<^verbatim>\<open>type profName string\<close>: a profile kind is a string, so \<^verbatim>\<open>startProfiling\<close> can be
  handed any string at all. The seven constants of hooks.go follow.
\<close>

type_synonym profName = string

abbreviation profileCPU :: profName where "profileCPU \<equiv> ''cpu''"
abbreviation profileTrace :: profName where "profileTrace \<equiv> ''trace''"
abbreviation profileGoroutine :: profName where "profileGoroutine \<equiv> ''goroutine''"
abbreviation profileThreadcreate :: profName where "profileThreadcreate \<equiv> ''threadcreate''"
abbreviation profileHeap :: profName where "profileHeap \<equiv> ''heap''"
abbreviation profileBlock :: profName where "profileBlock \<equiv> ''block''"
abbreviation profileAll :: profName where "profileAll \<equiv> ''all''"

definition OneOff :: "profName \<Rightarrow> bool" where
  "OneOff p = (p = profileGoroutine \<or> p = profileThreadcreate \<or> p = profileHeap \<or> p = profileBlock)"

text \<open>
  \<^verbatim>\<open>type prof struct\<close>. \<^verbatim>\<open>time.Time\<close> and \<^verbatim>\<open>time.Duration\<close> are nanosecond counts; they are
  unbounded integers here (the int64 range of a duration, some 292 years, is not modelled).
\<close>

record prof =
  Prof :: profName
  Dir :: string
  Start :: int
  Duration :: int

abbreviation time_Minute :: int where "time_Minute \<equiv> 60000000000"

definition defautMaxProfilingDuration :: int where
  "defautMaxProfilingDuration = 5 * time_Minute"

abbreviation traceFileName :: string where "traceFileName \<equiv> ''trace''"
abbreviation cpuProfileFileName :: string where "cpuProfileFileName \<equiv> ''cpu-profile''"

text \<open>A Go \<^verbatim>\<open>error\<close> value is its message; the nil error is \<open>None\<close> of \<open>error option\<close>.\<close>

datatype error = Errorf string

fun Error_msg :: "error \<Rightarrow> string" where
  "Error_msg (Errorf m) = m"

section \<open>The Go library functions the package calls\<close>

subsection \<open>strings and path/filepath\<close>

definition strings_HasPrefix :: "string \<Rightarrow> string \<Rightarrow> bool" where
  \<comment> \<open>\<^verbatim>\<open>strings.HasPrefix(s, prefix)\<close>: does \<open>s\<close> begin with \<open>prefix\<close>\<close>
  "strings_HasPrefix s pre = (length pre \<le> length s \<and> take (length pre) s = pre)"

fun split_on :: "char \<Rightarrow> string \<Rightarrow> string \<Rightarrow> string list" where
  "split_on sep acc [] = [rev acc]"
| "split_on sep acc (c # cs) =
     (if c = sep then rev acc # split_on sep [] cs else split_on sep (c # acc) cs)"

definition strings_Split :: "string \<Rightarrow> char \<Rightarrow> string list" where
  \<comment> \<open>\<^verbatim>\<open>strings.Split(s, sep)\<close> for a separator of one byte\<close>
  "strings_Split s sep = split_on sep [] s"

function strings_Replace :: "string \<Rightarrow> string \<Rightarrow> string \<Rightarrow> string" where
  \<comment> \<open>\<^verbatim>\<open>strings.Replace(s, old, new, -1)\<close>, every non-overlapping occurrence, \<open>old\<close> not empty
      (with an empty \<open>old\<close> the model returns \<open>s\<close>; the package never passes one)\<close>
  "strings_Replace [] old new = []"
| "strings_Replace (c # cs) old new =
     (if old \<noteq> [] \<and> strings_HasPrefix (c # cs) old
      then new @ strings_Replace (drop (length old) (c # cs)) old new
      else c # strings_Replace cs old new)"
  by pat_completeness auto
termination
  by (relation "measure (\<lambda>(s, old, new). length s)") auto

fun intercalate :: "string \<Rightarrow> string list \<Rightarrow> string" where
  "intercalate sep [] = []"
| "intercalate sep [x] = x"
| "intercalate sep (x # y # ys) = x @ sep @ intercalate sep (y # ys)"

fun clean_elems :: "bool \<Rightarrow> string list \<Rightarrow> string list \<Rightarrow> string list" where
  \<comment> \<open>the stack of kept path elements is held reversed\<close>
  "clean_elems rooted acc [] = rev acc"
| "clean_elems rooted acc (e # es) =
     (if e = [] \<or> e = ''.'' then clean_elems rooted acc es
      else if e = ''..'' then
        (case acc of
           [] \<Rightarrow> if rooted then clean_elems rooted [] es else clean_elems rooted [''..''] es
         | a # acc' \<Rightarrow>
             if a = ''..'' then clean_elems rooted (''..'' # a # acc') es
             else clean_elems rooted acc' es)
      else clean_elems rooted (e # acc) es)"

definition filepath_Clean :: "string \<Rightarrow> string" where
  \<comment> \<open>\<^verbatim>\<open>filepath.Clean\<close> on Unix: single slashes, no \<^verbatim>\<open>.\<close> element, \<^verbatim>\<open>..\<close> resolved\<close>
  "filepath_Clean p =
     (let rooted = (p \<noteq> [] \<and> hd p = CHR ''/'');
          out = (if rooted then ''/'' else []) @
                intercalate ''/'' (clean_elems rooted [] (strings_Split p (CHR ''/'')))
      in if out = [] then ''.'' else out)"

definition filepath_Join :: "string \<Rightarrow> string \<Rightarrow> string" where
  \<comment> \<open>\<^verbatim>\<open>filepath.Join(a, b)\<close>: empty elements are ignored, the result is cleaned\<close>
  "filepath_Join a b =
     (if a = [] \<and> b = [] then []
      else if a = [] then filepath_Clean b
      else if b = [] then filepath_Clean a
      else filepath_Clean (a @ ''/'' @ b))"

definition filepath_Base :: "string \<Rightarrow> string" where
  \<comment> \<open>\<^verbatim>\<open>filepath.Base\<close> on Unix: the last element, trailing slashes dropped first\<close>
  "filepath_Base p =
     (if p = [] then ''.''
      else let q = rev (dropWhile (\<lambda>c. c = CHR ''/'') (rev p));
               b = rev (takeWhile (\<lambda>c. c \<noteq> CHR ''/'') (rev q))
           in if b = [] then ''/'' else b)"

definition filepath_Dir :: "string \<Rightarrow> string" where
  \<comment> \<open>\<^verbatim>\<open>filepath.Dir\<close> on Unix: all but the last element, cleaned\<close>
  "filepath_Dir p = filepath_Clean (rev (dropWhile (\<lambda>c. c \<noteq> CHR ''/'') (rev p)))"

subsection \<open>The world outside the package: file system, clock, Go runtime\<close>

text \<open>
  Every call that leaves the package is appended to \<open>calls\<close>, in order, so that a theorem
  can say which calls an operation made and how often. The three \<open>Mock\<close> calls are those
  of the recording bindings of the package's tests; their first argument names the mock
  object.
\<close>

datatype call =
    OsTempDir string string
  | OsRemoveAll string
  | OsCreate string
  | OsChmod string
  | OsWriteString string string
  | OsStat string
  | OsReadDir string
  | OsOpen string
  | IoCopy string
  | IoCopyToClient
  | OsextExecutable
  | TraceStart string
  | TraceStop
  | StartCPUProfile string
  | StopCPUProfile
  | ProfileWriteTo profName string
  | MockStart string string
  | MockStop string
  | MockDump string profName string

text \<open>
  \<open>dirs\<close> and \<open>files\<close> are the directories and the regular files (path and content) that
  exist. \<open>tracing\<close> and \<open>cpuProfiling\<close> hold the file the runtime is writing a trace or a
  CPU profile to, when it is. \<open>suffixes\<close> and \<open>seed\<close> stand for the random names of
  \<^verbatim>\<open>ioutil.TempDir\<close>. \<open>faults\<close> lets any external call fail with an error of the
  environment's choosing (a full disk, a permission).
\<close>

record world =
  clock :: int
  tempRoot :: string
  dirs :: "string list"
  files :: "(string \<times> string) list"
  executable :: string
  tracing :: "string option"
  cpuProfiling :: "string option"
  suffixes :: "nat \<Rightarrow> string"
  seed :: nat
  calls :: "call list"
  logs :: "string list"
  faults :: "call \<Rightarrow> error option"

definition record_call :: "call \<Rightarrow> world \<Rightarrow> world" where
  "record_call c w = w\<lparr>calls := calls w @ [c]\<rparr>"

definition logf :: "string \<Rightarrow> world \<Rightarrow> world" where
  \<comment> \<open>hooks.go's \<^verbatim>\<open>logf\<close>, already formatted\<close>
  "logf m w = w\<lparr>logs := logs w @ [m]\<rparr>"

definition time_Now :: "world \<Rightarrow> int" where
  "time_Now w = clock w"

definition time_Since :: "int \<Rightarrow> world \<Rightarrow> int" where
  "time_Since t w = time_Now w - t"

definition path_exists :: "world \<Rightarrow> string \<Rightarrow> bool" where
  "path_exists w p = (p \<in> set (dirs w) \<or> p \<in> fst ` set (files w))"

definition path_under :: "string \<Rightarrow> string \<Rightarrow> bool" where
  \<comment> \<open>\<open>q\<close> is \<open>p\<close> or lies below it\<close>
  "path_under p q = (q = p \<or> strings_HasPrefix q (p @ ''/''))"

definition ioutil_TempDir :: "string \<Rightarrow> string \<Rightarrow> world \<Rightarrow> (error + string) \<times> world" where
  \<comment> \<open>\<^verbatim>\<open>ioutil.TempDir(dir, prefix)\<close>: a new directory named \<open>prefix\<close> plus a random suffix, in
      \<open>dir\<close> or in the default temporary directory. One attempt is modelled; Go tries again
      with another suffix when the name is taken.\<close>
  "ioutil_TempDir dir pre w =
     (let w1 = record_call (OsTempDir dir pre) w in
      case faults w (OsTempDir dir pre) of
        Some e \<Rightarrow> (Inl e, w1)
      | None \<Rightarrow>
          let try = filepath_Join (if dir = [] then tempRoot w else dir) (pre @ suffixes w (seed w));
              w2 = w1\<lparr>seed := Suc (seed w)\<rparr>
          in if path_exists w try then (Inl (Errorf (''mkdir '' @ try @ '': file exists'')), w2)
             else (Inr try, w2\<lparr>dirs := dirs w @ [try]\<rparr>))"

definition os_RemoveAll :: "string \<Rightarrow> world \<Rightarrow> error option \<times> world" where
  \<comment> \<open>\<^verbatim>\<open>os.RemoveAll(path)\<close>: removes the path and all below it; no error when the path
      does not exist. When it fails the model removes nothing.\<close>
  "os_RemoveAll p w =
     (let w1 = record_call (OsRemoveAll p) w in
      case faults w (OsRemoveAll p) of
        Some e \<Rightarrow> (Some e, w1)
      | None \<Rightarrow> (None, w1\<lparr>dirs := filter (\<lambda>d. \<not> path_under p d) (dirs w),
                            files := filter (\<lambda>(f, c). \<not> path_under p f) (files w)\<rparr>))"

definition os_Create :: "string \<Rightarrow> world \<Rightarrow> (error + string) \<times> world" where
  \<comment> \<open>\<^verbatim>\<open>os.Create(name)\<close>: creates or truncates the file; the open file is its path\<close>
  "os_Create p w =
     (let w1 = record_call (OsCreate p) w in
      case faults w (OsCreate p) of
        Some e \<Rightarrow> (Inl e, w1)
      | None \<Rightarrow>
          if p \<in> set (dirs w) then (Inl (Errorf (''open '' @ p @ '': is a directory'')), w1)
          else if filepath_Dir p \<notin> set (dirs w)
          then (Inl (Errorf (''open '' @ p @ '': no such file or directory'')), w1)
          else (Inr p, w1\<lparr>files := filter (\<lambda>(f, c). f \<noteq> p) (files w) @ [(p, [])]\<rparr>))"

subsection \<open>runtime/trace and runtime/pprof\<close>

definition trace_Start :: "string \<Rightarrow> world \<Rightarrow> error option \<times> world" where
  "trace_Start f w =
     (let w1 = record_call (TraceStart f) w in
      case faults w (TraceStart f) of
        Some e \<Rightarrow> (Some e, w1)
      | None \<Rightarrow>
          (case tracing w of
             Some g \<Rightarrow> (Some (Errorf ''tracing is already enabled''), w1)
           | None \<Rightarrow> (None, w1\<lparr>tracing := Some f\<rparr>)))"

definition trace_Stop :: "world \<Rightarrow> world" where
  "trace_Stop w = (record_call TraceStop w)\<lparr>tracing := None\<rparr>"

definition pprof_StartCPUProfile :: "string \<Rightarrow> world \<Rightarrow> error option \<times> world" where
  "pprof_StartCPUProfile f w =
     (let w1 = record_call (StartCPUProfile f) w in
      case faults w (StartCPUProfile f) of
        Some e \<Rightarrow> (Some e, w1)
      | None \<Rightarrow>
          (case cpuProfiling w of
             Some g \<Rightarrow> (Some (Errorf ''cpu profiling already in use''), w1)
           | None \<Rightarrow> (None, w1\<lparr>cpuProfiling := Some f\<rparr>)))"

definition pprof_StopCPUProfile :: "world \<Rightarrow> world" where
  "pprof_StopCPUProfile w = (record_call StopCPUProfile w)\<lparr>cpuProfiling := None\<rparr>"

definition pprof_Lookup :: "profName \<Rightarrow> bool" where
  \<comment> \<open>\<^verbatim>\<open>pprof.Lookup(name)\<close> is not nil for the runtime's predefined profiles\<close>
  "pprof_Lookup p = (p \<in> {''goroutine'', ''threadcreate'', ''heap'', ''block''})"

definition pprof_WriteTo :: "profName \<Rightarrow> string \<Rightarrow> world \<Rightarrow> error option \<times> world" where
  \<comment> \<open>\<^verbatim>\<open>pprof.Lookup(name).WriteTo(file, 0)\<close>. On a nil profile Go panics; the model returns
      an error there. The package only passes predefined names. The bytes written are not
      modelled.\<close>
  "pprof_WriteTo p f w =
     (if \<not> pprof_Lookup p then (Some (Errorf ''panic: nil pointer dereference''), w)
      else let w1 = record_call (ProfileWriteTo p f) w in
           case faults w (ProfileWriteTo p f) of
             Some e \<Rightarrow> (Some e, w1)
           | None \<Rightarrow> (None, w1))"

section \<open>The session state machine (hooks.go)\<close>

text \<open>The three function types used for mocking, as state transformers of the world.\<close>

type_synonym dumpFxn = "profName \<Rightarrow> string \<Rightarrow> world \<Rightarrow> error option \<times> world"
type_synonym startFxn = "string \<Rightarrow> world \<Rightarrow> error option \<times> world"
type_synonym stopFxn = "world \<Rightarrow> world"

text \<open>
  The goroutine that \<^verbatim>\<open>doStartProfiling\<close> starts is a \<open>watcher\<close>: it holds the channel it was
  given, the instant its \<^verbatim>\<open>time.After(maxProfilingDuration)\<close> expires (taken from the clock
  when the goroutine is started), and the three bindings its closure captured.
\<close>

record watcher =
  wCancel :: nat
  wDeadline :: int
  wDump :: dumpFxn
  wStopTrace :: stopFxn
  wStopCPU :: stopFxn

text \<open>
  The package-level variables. Channels live in \<open>chans\<close>, a channel value is an index into
  it and \<open>None\<close> is the nil channel; each entry is the buffer of a \<^verbatim>\<open>chan bool\<close> of capacity
  one. \<open>watchers\<close> are the goroutines still waiting in their \<^verbatim>\<open>select\<close>. The mutex
  \<^verbatim>\<open>ourProfilingStateGuard\<close> is not modelled: every operation below runs as one step.
\<close>

record pstate =
  ourCurrentProfile :: "prof option"
  ourWrittenProfiles :: "prof list"
  ourCancelAutostop :: "nat option"
  chans :: "bool list list"
  watchers :: "watcher list"

definition profilingInProgress :: "pstate \<Rightarrow> bool" where
  "profilingInProgress st = (ourCurrentProfile st \<noteq> None)"

definition cancelAutoStop :: "pstate \<Rightarrow> pstate" where
  \<comment> \<open>the non-blocking send: it succeeds when the channel is not nil and its buffer has
      room, otherwise the \<^verbatim>\<open>default\<close> branch runs\<close>
  "cancelAutoStop st =
     (case ourCancelAutostop st of
        None \<Rightarrow> st
      | Some c \<Rightarrow>
          if c < length (chans st) \<and> length (chans st ! c) < 1
          then st\<lparr>chans := (chans st)[c := chans st ! c @ [True]]\<rparr>
          else st)"

definition startWritingTrace :: startFxn where
  "startWritingTrace profilesDir w =
     (case os_Create (filepath_Join profilesDir traceFileName) w of
        (Inl err, w1) \<Rightarrow> (Some err, w1)
      | (Inr traceFile, w1) \<Rightarrow> trace_Start traceFile w1)"

definition dumpProfile :: dumpFxn where
  "dumpProfile profile profilesDir w =
     (case os_Create (filepath_Join profilesDir (profile @ ''-profile'')) w of
        (Inl err, w1) \<Rightarrow> (Some err, w1)
      | (Inr file, w1) \<Rightarrow> pprof_WriteTo profile file w1)"

definition startCPUProfiling :: startFxn where
  "startCPUProfiling profilesDir w =
     (case os_Create (filepath_Join profilesDir cpuProfileFileName) w of
        (Inl err, w1) \<Rightarrow> (Some err, w1)
      | (Inr cpuProfileFile, w1) \<Rightarrow> pprof_StartCPUProfile cpuProfileFile w1)"

definition doStopProfiling ::
  "dumpFxn \<Rightarrow> stopFxn \<Rightarrow> stopFxn \<Rightarrow> pstate \<Rightarrow> world \<Rightarrow> string \<times> pstate \<times> world" where
  "doStopProfiling dumpProfile' stopTrace stopCPU st w =
     (let st1 = cancelAutoStop st in
      case ourCurrentProfile st1 of
        None \<Rightarrow> ([], st1, w)
      | Some cur \<Rightarrow>
          let w1 = (if Prof cur = profileAll
                    then (case dumpProfile' profileHeap (Dir cur) w of
                            (Some err, w') \<Rightarrow>
                              logf (''Failed to write heap profile: '' @ Error_msg err) w'
                          | (None, w') \<Rightarrow> w')
                    else w);
              w2 = (if Prof cur = profileCPU \<or> Prof cur = profileAll then stopCPU w1 else w1);
              w3 = (if Prof cur = profileTrace \<or> Prof cur = profileAll then stopTrace w2 else w2);
              w4 = logf (''Stop writing profiles to '' @ [CHR 0x27] @ Dir cur @ [CHR 0x27]) w3;
              cur' = cur\<lparr>Duration := time_Since (Start cur) w4\<rparr>
          in (Dir cur,
              st1\<lparr>ourWrittenProfiles := ourWrittenProfiles st1 @ [cur'],
                  ourCurrentProfile := None\<rparr>,
              w4))"

definition startCleanup ::
  "profName \<Rightarrow> string \<Rightarrow> error \<Rightarrow> stopFxn \<Rightarrow> stopFxn \<Rightarrow> pstate \<Rightarrow> world \<Rightarrow> pstate \<times> world" where
  \<comment> \<open>the deferred function of \<^verbatim>\<open>doStartProfiling\<close>, in the case \<^verbatim>\<open>err != nil\<close>\<close>
  "startCleanup profile profilesDir err stopWritingTrace' stopCPUProfiling' st w =
     (let w1 = (if profile = profileTrace \<or> profile = profileAll then stopWritingTrace' w else w);
          w2 = (if profile = profileCPU \<or> profile = profileAll then stopCPUProfiling' w1 else w1);
          st1 = st\<lparr>ourCurrentProfile := None\<rparr>;
          (removeErr, w3) = os_RemoveAll profilesDir w2;
          w4 = (case removeErr of
                  Some re \<Rightarrow> logf (''Failed to remove '' @ profilesDir @ '': '' @ Error_msg re) w3
                | None \<Rightarrow> w3);
          w5 = logf (''Failed to start writing profiles: '' @ Error_msg err) w4
      in (st1, w5))"

definition doStartProfiling ::
  "profName \<Rightarrow> int \<Rightarrow> startFxn \<Rightarrow> stopFxn \<Rightarrow> startFxn \<Rightarrow> stopFxn \<Rightarrow> dumpFxn \<Rightarrow>
   pstate \<Rightarrow> world \<Rightarrow> (string \<times> error option) \<times> pstate \<times> world" where
  "doStartProfiling profile maxProfilingDuration startWritingTrace' stopWritingTrace'
       startCPUProfiling' stopCPUProfiling' dumpProfile' st w =
     (if profilingInProgress st
      then (([], Some (Errorf ''cannot start profiling, since it's already started'')), st, w)
      else
        case ioutil_TempDir [] (''prof-'' @ profile) w of
          (Inl err, w1) \<Rightarrow> (([], Some err), st, w1)
        | (Inr profilesDir, w1) \<Rightarrow>
            if OneOff profile then
              (case dumpProfile' profile profilesDir w1 of
                 (Some err, w2) \<Rightarrow>
                   (([], Some (Errorf (''failed to write heap profile: '' @ Error_msg err))), st, w2)
               | (None, w2) \<Rightarrow>
                   ((profilesDir, None),
                    st\<lparr>ourWrittenProfiles := ourWrittenProfiles st @
                         [\<lparr>Prof = profile, Dir = profilesDir, Start = time_Now w2, Duration = 0\<rparr>]\<rparr>,
                    w2))
            else
              (case (if profile = profileTrace \<or> profile = profileAll
                     then startWritingTrace' profilesDir w1 else (None, w1)) of
                 (Some err, w2) \<Rightarrow>
                   (let (st', w') = startCleanup profile profilesDir err
                                      stopWritingTrace' stopCPUProfiling' st w2
                    in (([], Some err), st', w'))
               | (None, w2) \<Rightarrow>
                   (case (if profile = profileCPU \<or> profile = profileAll
                          then startCPUProfiling' profilesDir w2 else (None, w2)) of
                      (Some err, w3) \<Rightarrow>
                        (let (st', w') = startCleanup profile profilesDir err
                                           stopWritingTrace' stopCPUProfiling' st w3
                         in (([], Some err), st', w'))
                    | (None, w3) \<Rightarrow>
                        (let c = length (chans st);
                             st1 = st\<lparr>chans := chans st @ [[]], ourCancelAutostop := Some c\<rparr>;
                             st2 = st1\<lparr>watchers := watchers st1 @
                                     [\<lparr>wCancel = c,
                                       wDeadline = time_Now w3 + maxProfilingDuration,
                                       wDump = dumpProfile',
                                       wStopTrace = stopWritingTrace',
                                       wStopCPU = stopCPUProfiling'\<rparr>]\<rparr>;
                             st3 = st2\<lparr>ourCurrentProfile :=
                                     Some \<lparr>Prof = profile, Dir = profilesDir,
                                           Start = time_Now w3, Duration = 0\<rparr>\<rparr>;
                             w4 = logf (''Start writing '' @ profile @ '' profiles to '' @
                                        [CHR 0x27] @ profilesDir @ [CHR 0x27]) w3
                         in ((profilesDir, None), st3, w4)))))"

definition known_profile :: "profName \<Rightarrow> bool" where
  \<comment> \<open>the \<^verbatim>\<open>switch\<close> of \<^verbatim>\<open>startProfiling\<close>\<close>
  "known_profile profile =
     (profile = profileCPU \<or> profile = profileTrace \<or> profile = profileGoroutine \<or>
      profile = profileThreadcreate \<or> profile = profileHeap \<or> profile = profileBlock \<or>
      profile = profileAll)"

definition startProfiling ::
  "profName \<Rightarrow> pstate \<Rightarrow> world \<Rightarrow> (string \<times> error option) \<times> pstate \<times> world" where
  "startProfiling profile st w =
     (if known_profile profile
      then doStartProfiling profile defautMaxProfilingDuration startWritingTrace trace_Stop
             startCPUProfiling pprof_StopCPUProfile dumpProfile st w
      else (([], Some (Errorf (''unknown profile: '' @ [CHR 0x27] @ profile @ [CHR 0x27]))), st, w))"

definition stopProfiling :: "pstate \<Rightarrow> world \<Rightarrow> string \<times> pstate \<times> world" where
  "stopProfiling st w = doStopProfiling dumpProfile trace_Stop pprof_StopCPUProfile st w"

subsection \<open>The timeout goroutine\<close>

text \<open>
  The goroutine waits in a \<^verbatim>\<open>select\<close> on its timer and on its channel. Each branch is one
  step of the model, enabled when its channel operation can proceed; when both can, either
  step may be taken, as Go chooses between ready cases. Either way the goroutine ends.
\<close>

definition remove_nth :: "nat \<Rightarrow> 'a list \<Rightarrow> 'a list" where
  "remove_nth i xs = take i xs @ drop (Suc i) xs"

definition watcherTimeout :: "nat \<Rightarrow> pstate \<Rightarrow> world \<Rightarrow> pstate \<times> world" where
  \<comment> \<open>\<^verbatim>\<open>case <-time.After(maxProfilingDuration)\<close>: stop with the captured bindings\<close>
  "watcherTimeout i st w =
     (if i < length (watchers st) \<and> wDeadline (watchers st ! i) \<le> time_Now w
      then let g = watchers st ! i;
               st1 = st\<lparr>watchers := remove_nth i (watchers st)\<rparr>;
               (dir, st2, w2) = doStopProfiling (wDump g) (wStopTrace g) (wStopCPU g) st1 w
           in (st2, w2)
      else (st, w))"

definition watcherCancelled :: "nat \<Rightarrow> pstate \<Rightarrow> pstate" where
  \<comment> \<open>\<^verbatim>\<open>case <-cancelAutostop\<close>: take the value from the channel and return\<close>
  "watcherCancelled i st =
     (if i < length (watchers st) \<and> wCancel (watchers st ! i) < length (chans st) \<and>
         chans st ! wCancel (watchers st ! i) \<noteq> []
      then let c = wCancel (watchers st ! i)
           in st\<lparr>chans := (chans st)[c := tl (chans st ! c)],
                 watchers := remove_nth i (watchers st)\<rparr>
      else st)"

subsection \<open>Operations on the machine\<close>

text \<open>
  What can happen to the package state: the two entry points, the same two with injected
  bindings (as the tests call them), the two branches of a waiting goroutine, and the
  passing of time.
\<close>

datatype event =
    EvStart profName
  | EvStop
  | EvDoStart profName int startFxn stopFxn startFxn stopFxn dumpFxn
  | EvDoStop dumpFxn stopFxn stopFxn
  | EvTimeout nat
  | EvCancelled nat
  | EvTick nat

fun step :: "event \<Rightarrow> pstate \<times> world \<Rightarrow> pstate \<times> world" where
  "step (EvStart profile) (st, w) = snd (startProfiling profile st w)"
| "step EvStop (st, w) = snd (stopProfiling st w)"
| "step (EvDoStart profile d startT stopT startC stopC dump) (st, w) =
     snd (doStartProfiling profile d startT stopT startC stopC dump st w)"
| "step (EvDoStop dump stopT stopC) (st, w) = snd (doStopProfiling dump stopT stopC st w)"
| "step (EvTimeout i) (st, w) = watcherTimeout i st w"
| "step (EvCancelled i) (st, w) = (watcherCancelled i st, w)"
| "step (EvTick n) (st, w) = (st, w\<lparr>clock := clock w + int n\<rparr>)"

fun run :: "event list \<Rightarrow> pstate \<times> world \<Rightarrow> pstate \<times> world" where
  "run [] sw = sw"
| "run (e # es) sw = run es (step e sw)"

section \<open>Packing and downloading written profiles\<close>

subsection \<open>More of the outside world: reading files, the executable, tar\<close>

text \<open>
  Paths are taken as written: the model does not resolve two spellings of one path to the
  same file. \<^verbatim>\<open>os.FileInfo\<close> is reduced to the name and the directory flag.
\<close>

record fileInfo =
  fiName :: string
  fiIsDir :: bool

definition os_Stat :: "string \<Rightarrow> world \<Rightarrow> (error + fileInfo) \<times> world" where
  "os_Stat p w =
     (let w1 = record_call (OsStat p) w in
      case faults w (OsStat p) of
        Some e \<Rightarrow> (Inl e, w1)
      | None \<Rightarrow>
          if p \<in> set (dirs w) then (Inr \<lparr>fiName = filepath_Base p, fiIsDir = True\<rparr>, w1)
          else if p \<in> fst ` set (files w)
          then (Inr \<lparr>fiName = filepath_Base p, fiIsDir = False\<rparr>, w1)
          else (Inl (Errorf (''stat '' @ p @ '': no such file or directory'')), w1))"

definition child_name :: "string \<Rightarrow> string \<Rightarrow> string option" where
  \<comment> \<open>the name under which \<open>q\<close> is an entry of the directory \<open>d\<close>, if it is one\<close>
  "child_name d q =
     (if strings_HasPrefix q (d @ ''/'') \<and> drop (Suc (length d)) q \<noteq> [] \<and>
         CHR ''/'' \<notin> set (drop (Suc (length d)) q)
      then Some (drop (Suc (length d)) q) else None)"

definition dir_entries :: "string \<Rightarrow> world \<Rightarrow> fileInfo list" where
  "dir_entries d w =
     List.map_filter (\<lambda>q. map_option (\<lambda>n. \<lparr>fiName = n, fiIsDir = True\<rparr>) (child_name d q)) (dirs w) @
     List.map_filter (\<lambda>(q, c). map_option (\<lambda>n. \<lparr>fiName = n, fiIsDir = False\<rparr>) (child_name d q))
       (files w)"

definition ioutil_ReadDir :: "string \<Rightarrow> world \<Rightarrow> (error + fileInfo list) \<times> world" where
  \<comment> \<open>\<^verbatim>\<open>ioutil.ReadDir(dirname)\<close>: the entries of the directory, sorted by file name\<close>
  "ioutil_ReadDir d w =
     (let w1 = record_call (OsReadDir d) w in
      case faults w (OsReadDir d) of
        Some e \<Rightarrow> (Inl e, w1)
      | None \<Rightarrow>
          if d \<in> set (dirs w) then (Inr (sort_key fiName (dir_entries d w)), w1)
          else (Inl (Errorf (''open '' @ d @ '': no such file or directory'')), w1))"

definition os_Open :: "string \<Rightarrow> world \<Rightarrow> (error + string) \<times> world" where
  "os_Open p w =
     (let w1 = record_call (OsOpen p) w in
      case faults w (OsOpen p) of
        Some e \<Rightarrow> (Inl e, w1)
      | None \<Rightarrow>
          if path_exists w p then (Inr p, w1)
          else (Inl (Errorf (''open '' @ p @ '': no such file or directory'')), w1))"

definition osext_Executable :: "world \<Rightarrow> (error + string) \<times> world" where
  "osext_Executable w =
     (let w1 = record_call OsextExecutable w in
      case faults w OsextExecutable of
        Some e \<Rightarrow> (Inl e, w1)
      | None \<Rightarrow> (Inr (executable w), w1))"

definition file_Chmod :: "string \<Rightarrow> world \<Rightarrow> error option \<times> world" where
  \<comment> \<open>\<^verbatim>\<open>tmpFile.Chmod(0777)\<close>; permissions are not modelled\<close>
  "file_Chmod f w = (faults w (OsChmod f), record_call (OsChmod f) w)"

definition file_WriteString :: "string \<Rightarrow> string \<Rightarrow> world \<Rightarrow> error option \<times> world" where
  \<comment> \<open>\<^verbatim>\<open>tmpFile.WriteString(s)\<close>: appends to the open file\<close>
  "file_WriteString f s w =
     (let w1 = record_call (OsWriteString f s) w in
      case faults w (OsWriteString f s) of
        Some e \<Rightarrow> (Some e, w1)
      | None \<Rightarrow> (None, w1\<lparr>files := map (\<lambda>(q, c). if q = f then (q, c @ s) else (q, c)) (files w)\<rparr>))"

text \<open>
  The archive under construction is the list of its entries. \<^verbatim>\<open>tar.FileInfoHeader\<close> names
  an entry by the file's base name; \<^verbatim>\<open>WriteHeader\<close> opens a new entry and \<^verbatim>\<open>io.Copy\<close> fills
  it with the file's content. Reading from a directory fails.
\<close>

record tarEntry =
  teName :: string
  teIsDir :: bool
  teBody :: string

type_synonym archive = "tarEntry list"

definition tar_FileInfoHeader :: "fileInfo \<Rightarrow> error + tarEntry" where
  "tar_FileInfoHeader fi =
     Inr \<lparr>teName = (if fiIsDir fi then fiName fi @ ''/'' else fiName fi),
          teIsDir = fiIsDir fi, teBody = []\<rparr>"

definition tar_WriteHeader :: "archive \<Rightarrow> tarEntry \<Rightarrow> error option \<times> archive" where
  "tar_WriteHeader a header = (None, a @ [header])"

definition io_Copy :: "archive \<Rightarrow> string \<Rightarrow> world \<Rightarrow> error option \<times> archive \<times> world" where
  "io_Copy a file w =
     (let w1 = record_call (IoCopy file) w in
      case faults w (IoCopy file) of
        Some e \<Rightarrow> (Some e, a, w1)
      | None \<Rightarrow>
          (case map_of (files w) file of
             None \<Rightarrow> (Some (Errorf (''read '' @ file @ '': is a directory'')), a, w1)
           | Some content \<Rightarrow>
               (case a of
                  [] \<Rightarrow> (Some (Errorf ''archive/tar: write too long''), a, w1)
                | _ \<Rightarrow> (None, butlast a @ [(last a)\<lparr>teBody := teBody (last a) @ content\<rparr>], w1))))"

subsection \<open>The handlers' helper functions (the file with the HTTP handlers)\<close>

definition showWebScriptTpl :: string where
  "showWebScriptTpl =
     ''#!/bin/bash'' @ [CHR 0x0A] @
     ''cd $(dirname $0)'' @ [CHR 0x0A] @
     ''go tool pprof -web {{bin}} {{profile}}''"

definition writeFile :: "archive \<Rightarrow> string \<Rightarrow> world \<Rightarrow> error option \<times> archive \<times> world" where
  "writeFile a filePath w =
     (case os_Stat filePath w of
        (Inl err, w1) \<Rightarrow> (Some err, a, w1)
      | (Inr fileInfo, w1) \<Rightarrow>
          (case tar_FileInfoHeader fileInfo of
             Inl err \<Rightarrow> (Some err, a, w1)
           | Inr header \<Rightarrow>
               (case tar_WriteHeader a header of
                  (Some err, a1) \<Rightarrow> (Some err, a1, w1)
                | (None, a1) \<Rightarrow>
                    (case os_Open filePath w1 of
                       (Inl err, w2) \<Rightarrow> (Some err, a1, w2)
                     | (Inr file, w2) \<Rightarrow> io_Copy a1 file w2))))"

fun writeChildren ::
  "string \<Rightarrow> fileInfo list \<Rightarrow> archive \<Rightarrow> world \<Rightarrow> error option \<times> archive \<times> world" where
  \<comment> \<open>the \<^verbatim>\<open>for _, child := range children\<close> loop of \<^verbatim>\<open>packProfiles\<close>\<close>
  "writeChildren profilesDir [] a w = (None, a, w)"
| "writeChildren profilesDir (child # children) a w =
     (let childName = filepath_Join profilesDir (fiName child) in
      case writeFile a childName w of
        (Some err, a1, w1) \<Rightarrow>
          (Some (Errorf (''failed to write '' @ childName @ '': '' @ Error_msg err)), a1, w1)
      | (None, a1, w1) \<Rightarrow> writeChildren profilesDir children a1 w1)"

definition writeShowWeb ::
  "string \<Rightarrow> string \<Rightarrow> archive \<Rightarrow> world \<Rightarrow> (error + archive) \<times> world" where
  \<comment> \<open>the body of the \<^verbatim>\<open>if\<close> of \<^verbatim>\<open>packProfiles\<close>; the deferred \<^verbatim>\<open>os.RemoveAll(tmpDir)\<close> runs
      on every return after the file has been created, its result dropped\<close>
  "writeShowWeb binary profileName a w =
     (let binName = filepath_Base binary;
          withBinary = strings_Replace showWebScriptTpl ''{{bin}}'' binName;
          scriptSrc = strings_Replace withBinary ''{{profile}}'' profileName
      in case ioutil_TempDir [] [] w of
           (Inl err, w1) \<Rightarrow> (Inl (Errorf (''failed to create temp dir: '' @ Error_msg err)), w1)
         | (Inr tmpDir, w1) \<Rightarrow>
             (case os_Create (filepath_Join tmpDir ''show-web'') w1 of
                (Inl err, w2) \<Rightarrow>
                  (Inl (Errorf (''failed to create file in temp dir '' @ tmpDir @ '': '' @
                                Error_msg err)), w2)
              | (Inr tmpFile, w2) \<Rightarrow>
                  (case file_Chmod tmpFile w2 of
                     (Some err, w3) \<Rightarrow>
                       (Inl (Errorf (''failed to chmod temp file '' @ tmpFile @ '': '' @
                                     Error_msg err)), snd (os_RemoveAll tmpDir w3))
                   | (None, w3) \<Rightarrow>
                       (case file_WriteString tmpFile scriptSrc w3 of
                          (Some err, w4) \<Rightarrow>
                            (Inl (Errorf (''failed to write temp file '' @ tmpFile @ '': '' @
                                          Error_msg err)), snd (os_RemoveAll tmpDir w4))
                        | (None, w4) \<Rightarrow>
                            (case writeFile a tmpFile w4 of
                               (Some err, a1, w5) \<Rightarrow>
                                 (Inl (Errorf (''failed to write '' @ tmpFile @ '': '' @
                                               Error_msg err)), snd (os_RemoveAll tmpDir w5))
                             | (None, a1, w5) \<Rightarrow>
                                 (Inr a1, snd (os_RemoveAll tmpDir w5)))))))"

definition packProfiles :: "string \<Rightarrow> world \<Rightarrow> (error + archive) \<times> world" where
  "packProfiles profilesDir w =
     (case osext_Executable w of
        (Inl err, w1) \<Rightarrow> (Inl err, w1)
      | (Inr binary, w1) \<Rightarrow>
          (case writeFile [] binary w1 of
             (Some err, a1, w2) \<Rightarrow> (Inl err, w2)
           | (None, a1, w2) \<Rightarrow>
               (case ioutil_ReadDir profilesDir w2 of
                  (Inl err, w3) \<Rightarrow>
                    (Inl (Errorf (''failed to ls '' @ [CHR 0x27] @ profilesDir @ [CHR 0x27] @
                                  '': '' @ Error_msg err)), w3)
                | (Inr children, w3) \<Rightarrow>
                    (case writeChildren profilesDir children a1 w3 of
                       (Some err, a2, w4) \<Rightarrow> (Inl err, w4)
                     | (None, a2, w4) \<Rightarrow>
                         (let dirname = filepath_Base profilesDir in
                          if \<not> strings_HasPrefix ''prof-all'' dirname \<and>
                             \<not> strings_HasPrefix ''prof-trace'' dirname \<and>
                             length children = 1
                          then writeShowWeb binary (fiName (hd children)) a2 w4
                          else (Inr a2, w4))))))"

subsection \<open>Requests and responses\<close>

text \<open>
  Of a request the handlers read the query parameters and the \<^verbatim>\<open>accept\<close> header. What a
  handler does to its \<^verbatim>\<open>http.ResponseWriter\<close> is the list of its writes, in order.
\<close>

record request =
  query :: "(string \<times> string) list"
  accept :: string

definition query_Get :: "request \<Rightarrow> string \<Rightarrow> string" where
  \<comment> \<open>\<^verbatim>\<open>r.URL.Query().Get(key)\<close>: the first value, or the empty string\<close>
  "query_Get r k = (case map_of (query r) k of Some v \<Rightarrow> v | None \<Rightarrow> [])"

definition isJsonRequest :: "request \<Rightarrow> bool" where
  "isJsonRequest r =
     (query_Get r ''json'' = ''1'' \<or>
      ''application/json'' \<in> set (strings_Split (accept r) (CHR '','')))"

datatype http_write =
    WriteHeader nat
  | HeaderAdd string string
  | EncodeSimpleResponse bool string
  | HttpError string nat
  | RenderPage string "prof option" "prof list" int
  | CopyArchive archive

abbreviation StatusBadRequest :: nat where "StatusBadRequest \<equiv> 400"

fun statusCode :: "http_write list \<Rightarrow> nat" where
  \<comment> \<open>the status the client sees: that of the first header written, 200 when a body is
      written first\<close>
  "statusCode [] = 200"
| "statusCode (WriteHeader n # ws) = n"
| "statusCode (HttpError m n # ws) = n"
| "statusCode (HeaderAdd k v # ws) = statusCode ws"
| "statusCode (x # ws) = 200"

definition renderPage :: "string \<Rightarrow> pstate \<Rightarrow> world \<Rightarrow> http_write list" where
  \<comment> \<open>the template is executed on these four values; its failure is not modelled\<close>
  "renderPage msg st w =
     [RenderPage msg (ourCurrentProfile st) (ourWrittenProfiles st)
        (case ourCurrentProfile st of
           None \<Rightarrow> 0
         | Some cur \<Rightarrow> time_Since (Start cur) w div 1000000000)]"

definition fatalError :: "request \<Rightarrow> string \<Rightarrow> http_write list" where
  "fatalError r errorMessage =
     WriteHeader StatusBadRequest #
     (if isJsonRequest r
      then [HeaderAdd ''Content-Type'' ''application/json'',
            EncodeSimpleResponse False errorMessage]
      else [HttpError errorMessage StatusBadRequest])"

definition flashError :: "request \<Rightarrow> string \<Rightarrow> pstate \<Rightarrow> world \<Rightarrow> http_write list" where
  "flashError r errorMessage st w =
     WriteHeader StatusBadRequest #
     (if isJsonRequest r
      then [HeaderAdd ''Content-Type'' ''application/json'',
            EncodeSimpleResponse False errorMessage]
      else renderPage errorMessage st w)"


section \<open>The recording bindings of the tests\<close>

text \<open>
  The tests replace the bindings by mocks that do nothing but remember that they were
  called, and with what, and return a fixed result. Here each mock appends its call to the
  world's \<open>calls\<close>; its first argument names the mock object.
\<close>

definition mockStopper :: "string \<Rightarrow> stopFxn" where
  "mockStopper m w = record_call (MockStop m) w"

definition mockStarter :: "string \<Rightarrow> error option \<Rightarrow> startFxn" where
  "mockStarter m result dir w = (result, record_call (MockStart m dir) w)"

definition mockDumper :: "string \<Rightarrow> error option \<Rightarrow> dumpFxn" where
  "mockDumper m result profile dir w = (result, record_call (MockDump m profile dir) w)"

section \<open>A starting point for concrete runs\<close>

definition initial_state :: pstate where
  "initial_state = \<lparr>ourCurrentProfile = None, ourWrittenProfiles = [], ourCancelAutostop = None,
                     chans = [], watchers = []\<rparr>"

definition world0 :: world where
  "world0 = \<lparr>clock = 1000, tempRoot = ''/tmp'',
             dirs = [''/'', ''/tmp'', ''/usr'', ''/usr/bin''], files = [(''/usr/bin/app'', ''ELF'')],
             executable = ''/usr/bin/app'', tracing = None, cpuProfiling = None,
             suffixes = (\<lambda>n. ''42'' @ replicate n (CHR ''7'')), seed = 0,
             calls = [], logs = [], faults = (\<lambda>c. None)\<rparr>"

section \<open>Facts about the cancellation send\<close>

lemma cancelAutoStop_fields [simp]:
  "ourCurrentProfile (cancelAutoStop st) = ourCurrentProfile st"
  "ourWrittenProfiles (cancelAutoStop st) = ourWrittenProfiles st"
  "ourCancelAutostop (cancelAutoStop st) = ourCancelAutostop st"
  "watchers (cancelAutoStop st) = watchers st"
  by (simp_all add: cancelAutoStop_def split: option.splits)

lemma cancelAutoStop_idem: "cancelAutoStop (cancelAutoStop st) = cancelAutoStop st"
  by (simp add: cancelAutoStop_def split: option.splits)

lemma doStopProfiling_idle:
  "ourCurrentProfile st = None \<Longrightarrow> doStopProfiling dump stopT stopC st w = ([], cancelAutoStop st, w)"
  by (simp add: doStopProfiling_def Let_def)

section \<open>Stopping when nothing is running\<close>

text \<open>
  Claim C6. When no session is active, stopping returns the empty path (the function has
  no error result), makes no call to any binding or to the outside world, and leaves the
  current-profile slot and the list of written profiles as they were; a second stop right
  after it returns the empty path again and changes nothing at all. This holds for
  \<^verbatim>\<open>doStopProfiling\<close> with any bindings, and so for \<^verbatim>\<open>stopProfiling\<close>.
\<close>

theorem stop_when_idle_is_noop:
  assumes "\<not> profilingInProgress st"
  shows "(case doStopProfiling dump stopT stopC st w of
            (path, st1, w1) \<Rightarrow>
              path = [] \<and> w1 = w \<and>
              ourCurrentProfile st1 = ourCurrentProfile st \<and>
              ourWrittenProfiles st1 = ourWrittenProfiles st \<and>
              \<not> profilingInProgress st1 \<and>
              doStopProfiling dump stopT stopC st1 w1 = ([], st1, w1)) \<and>
         (case stopProfiling st w of
            (path, st1, w1) \<Rightarrow>
              path = [] \<and> w1 = w \<and>
              ourCurrentProfile st1 = ourCurrentProfile st \<and>
              ourWrittenProfiles st1 = ourWrittenProfiles st \<and>
              \<not> profilingInProgress st1 \<and>
              stopProfiling st1 w1 = ([], st1, w1))"
proof -
  from assms have idle: "ourCurrentProfile st = None"
    by (simp add: profilingInProgress_def)
  have again: "ourCurrentProfile (cancelAutoStop st) = None"
    using idle by simp
  show ?thesis
    unfolding stopProfiling_def
    by (simp add: doStopProfiling_idle [OF idle] doStopProfiling_idle [OF again]
        cancelAutoStop_idem idle profilingInProgress_def)
qed

theorem stop_when_idle_is_noop_witness:
  "\<not> profilingInProgress initial_state \<and>
   (case stopProfiling initial_state world0 of
      (path, st1, w1) \<Rightarrow>
        path = [] \<and> w1 = world0 \<and>
        ourCurrentProfile st1 = ourCurrentProfile initial_state \<and>
        ourWrittenProfiles st1 = ourWrittenProfiles initial_state \<and>
        \<not> profilingInProgress st1 \<and>
        stopProfiling st1 w1 = ([], st1, w1))"
proof -
  have idle: "\<not> profilingInProgress initial_state"
    by (simp add: profilingInProgress_def initial_state_def)
  from stop_when_idle_is_noop [where st = initial_state and w = world0, OF idle]
  show ?thesis using idle by simp
qed

section \<open>Starting an unknown kind\<close>

text \<open>
  Claim C7. For every string that is not one of the seven profile names, \<^verbatim>\<open>startProfiling\<close>
  returns the empty directory and the error \<^verbatim>\<open>unknown profile: '<kind>'\<close>, and both the
  package state and the world are returned as they were: no directory is created, no
  binding or other external call is made, the current-profile slot and the written profiles
  are untouched, and a machine that was idle is idle.
\<close>

theorem start_unknown_kind_fails:
  assumes "kind \<notin> {''cpu'', ''trace'', ''goroutine'', ''threadcreate'', ''heap'', ''block'', ''all''}"
  shows "startProfiling kind st w =
           (([], Some (Errorf (''unknown profile: '' @ [CHR 0x27] @ kind @ [CHR 0x27]))), st, w)"
  using assms by (simp add: startProfiling_def known_profile_def)

theorem start_unknown_kind_fails_witness:
  "''mutex'' \<notin> {''cpu'', ''trace'', ''goroutine'', ''threadcreate'', ''heap'', ''block'', ''all''} \<and>
   startProfiling ''mutex'' initial_state world0 =
     (([], Some (Errorf (''unknown profile: '' @ [CHR 0x27] @ ''mutex'' @ [CHR 0x27]))),
      initial_state, world0)"
  using start_unknown_kind_fails [of "''mutex''" initial_state world0] by simp

section \<open>Facts about the outside world\<close>

lemma record_call_simps [simp]:
  "calls (record_call c w) = calls w @ [c]"
  "dirs (record_call c w) = dirs w"
  "files (record_call c w) = files w"
  "faults (record_call c w) = faults w"
  "clock (record_call c w) = clock w"
  "logs (record_call c w) = logs w"
  "path_exists (record_call c w) = path_exists w"
  by (simp_all add: record_call_def path_exists_def fun_eq_iff)

lemma logf_simps [simp]:
  "calls (logf m w) = calls w"
  "dirs (logf m w) = dirs w"
  "files (logf m w) = files w"
  "faults (logf m w) = faults w"
  "clock (logf m w) = clock w"
  "logs (logf m w) = logs w @ [m]"
  "path_exists (logf m w) = path_exists w"
  by (simp_all add: logf_def path_exists_def fun_eq_iff)

lemma path_under_self [simp]: "path_under p p"
  by (simp add: path_under_def)

lemma TempDir_result:
  assumes "ioutil_TempDir dir pre w = (Inr d, w1)"
  shows "calls w1 = calls w @ [OsTempDir dir pre]" "dirs w1 = dirs w @ [d]" "files w1 = files w"
    "faults w1 = faults w" "clock w1 = clock w" "\<not> path_exists w d" "logs w1 = logs w"
  using assms
  by (auto simp: ioutil_TempDir_def Let_def record_call_def split: option.splits if_splits)

lemma os_RemoveAll_simps [simp]:
  "calls (snd (os_RemoveAll p w)) = calls w @ [OsRemoveAll p]"
  "fst (os_RemoveAll p w) = faults w (OsRemoveAll p)"
  "faults (snd (os_RemoveAll p w)) = faults w"
  "clock (snd (os_RemoveAll p w)) = clock w"
  by (simp_all add: os_RemoveAll_def Let_def split: option.splits)


lemma mockStopper_simps [simp]:
  "calls (mockStopper m w) = calls w @ [MockStop m]"
  "faults (mockStopper m w) = faults w"
  "clock (mockStopper m w) = clock w"
  "dirs (mockStopper m w) = dirs w"
  "path_exists (mockStopper m w) = path_exists w"
  by (simp_all add: mockStopper_def)


section \<open>Starting everything, then stopping\<close>

text \<open>
  Claim C2. Take a start of kind \<^verbatim>\<open>all\<close> that succeeds (it returns no error), with recording
  bindings, and a stop that follows it at any later clock reading \<open>t\<close>, its heap-snapshot
  binding returning any result \<open>r\<close>, an error or none. Then the stop returns the directory
  the start returned; after the creation of the directory the calls made are exactly: the
  two begin bindings with that directory, the heap-snapshot binding with kind \<^verbatim>\<open>heap\<close> and
  that directory, the CPU-stop binding once and the trace-stop binding once; and no
  profiling is in progress afterwards.
\<close>

theorem start_all_then_stop:
  assumes ok: "snd (fst (doStartProfiling profileAll maxDur (mockStarter ''startTrace'' r1)
                  (mockStopper ''stopTrace'') (mockStarter ''startCPU'' r2) (mockStopper ''stopCPU'')
                  dump0 st w)) = None"
  shows "case doStartProfiling profileAll maxDur (mockStarter ''startTrace'' r1)
                  (mockStopper ''stopTrace'') (mockStarter ''startCPU'' r2) (mockStopper ''stopCPU'')
                  dump0 st w of
           ((startDir, err), st1, w1) \<Rightarrow>
             (case doStopProfiling (mockDumper ''writeHeap'' r) (mockStopper ''stopTrace'')
                     (mockStopper ''stopCPU'') st1 (w1\<lparr>clock := t\<rparr>) of
                (stopDir, st2, w2) \<Rightarrow>
                  stopDir = startDir \<and>
                  calls w2 = calls w @
                    [OsTempDir [] ''prof-all'',
                     MockStart ''startTrace'' startDir, MockStart ''startCPU'' startDir,
                     MockDump ''writeHeap'' profileHeap startDir,
                     MockStop ''stopCPU'', MockStop ''stopTrace''] \<and>
                  \<not> profilingInProgress st2)"
  using ok
  by (auto simp: doStartProfiling_def doStopProfiling_def OneOff_def startCleanup_def
      mockStarter_def mockDumper_def Let_def profilingInProgress_def
      time_Since_def time_Now_def TempDir_result
      split: if_splits prod.splits sum.splits option.splits)

theorem start_all_then_stop_witness:
  "snd (fst (doStartProfiling profileAll 10 (mockStarter ''startTrace'' None)
               (mockStopper ''stopTrace'') (mockStarter ''startCPU'' None) (mockStopper ''stopCPU'')
               (mockDumper ''unused'' None) initial_state world0)) = None \<and>
   (case doStartProfiling profileAll 10 (mockStarter ''startTrace'' None)
               (mockStopper ''stopTrace'') (mockStarter ''startCPU'' None) (mockStopper ''stopCPU'')
               (mockDumper ''unused'' None) initial_state world0 of
      ((startDir, err), st1, w1) \<Rightarrow>
        (case doStopProfiling (mockDumper ''writeHeap'' (Some (Errorf ''test'')))
                (mockStopper ''stopTrace'') (mockStopper ''stopCPU'') st1 (w1\<lparr>clock := 2000\<rparr>) of
           (stopDir, st2, w2) \<Rightarrow>
             stopDir = startDir \<and>
             calls w2 = calls world0 @
               [OsTempDir [] ''prof-all'',
                MockStart ''startTrace'' startDir, MockStart ''startCPU'' startDir,
                MockDump ''writeHeap'' profileHeap startDir,
                MockStop ''stopCPU'', MockStop ''stopTrace''] \<and>
             \<not> profilingInProgress st2))"
proof -
  have ok: "snd (fst (doStartProfiling profileAll 10 (mockStarter ''startTrace'' None)
               (mockStopper ''stopTrace'') (mockStarter ''startCPU'' None) (mockStopper ''stopCPU'')
               (mockDumper ''unused'' None) initial_state world0)) = None"
    by code_simp
  from start_all_then_stop [OF ok, where r = "Some (Errorf ''test'')" and t = 2000]
  show ?thesis using ok by simp
qed

section \<open>A begin binding that fails\<close>



section \<open>Starting a one-off kind\<close>

text \<open>
  Claim C4, as amended. Start a one-off kind (goroutine, threadcreate, heap or block) on an
  idle machine, the fresh directory \<open>d\<close> having been created, with a recording snapshot
  binding that returns \<open>r\<close>. The binding is called exactly once, with that kind and \<open>d\<close>,
  and \<open>d\<close> did not exist before and exists now. No profiling is in progress afterwards,
  and the current-profile slot, the channel and the goroutines are untouched: the machine
  was never active. If the binding reports no error, the start returns \<open>d\<close> and no error,
  and appends one session (kind, \<open>d\<close>, start time, duration zero) to the written profiles.
  If the binding reports an error, the start returns the empty directory and an error, and
  the package state is unchanged: nothing is appended.
\<close>

theorem start_oneoff_dumps:
  assumes oneoff: "OneOff kind"
    and idle: "\<not> profilingInProgress st"
    and tmp: "fst (ioutil_TempDir [] (''prof-'' @ kind) w) = Inr d"
  shows "case doStartProfiling kind maxDur startT stopT startC stopC (mockDumper ''dumper'' r) st w of
           ((dir, err), st', w') \<Rightarrow>
             calls w' = calls w @ [OsTempDir [] (''prof-'' @ kind), MockDump ''dumper'' kind d] \<and>
             \<not> path_exists w d \<and> d \<in> set (dirs w') \<and>
             \<not> profilingInProgress st' \<and>
             (r = None \<longrightarrow>
                dir = d \<and> err = None \<and>
                st' = st\<lparr>ourWrittenProfiles := ourWrittenProfiles st @
                           [\<lparr>Prof = kind, Dir = d, Start = clock w, Duration = 0\<rparr>]\<rparr>) \<and>
             (r \<noteq> None \<longrightarrow> dir = [] \<and> err \<noteq> None \<and> st' = st)"
proof -
  obtain w0 where tmp': "ioutil_TempDir [] (''prof-'' @ kind) w = (Inr d, w0)"
    using tmp by (cases "ioutil_TempDir [] (''prof-'' @ kind) w") simp
  show ?thesis
    using oneoff idle tmp' TempDir_result [OF tmp']
    by (cases r)
      (simp_all add: doStartProfiling_def mockDumper_def profilingInProgress_def time_Now_def)
qed

theorem start_oneoff_dumps_witness:
  "OneOff profileHeap \<and> \<not> profilingInProgress initial_state \<and>
   fst (ioutil_TempDir [] (''prof-'' @ profileHeap) world0) = Inr ''/tmp/prof-heap42'' \<and>
   (case doStartProfiling profileHeap 10 (mockStarter ''unused'' None) (mockStopper ''unused'')
           (mockStarter ''unused'' None) (mockStopper ''unused'') (mockDumper ''dumper'' None)
           initial_state world0 of
      ((dir, err), st', w') \<Rightarrow>
        calls w' = [OsTempDir [] ''prof-heap'', MockDump ''dumper'' profileHeap ''/tmp/prof-heap42''] \<and>
        \<not> path_exists world0 ''/tmp/prof-heap42'' \<and> ''/tmp/prof-heap42'' \<in> set (dirs w') \<and>
        \<not> profilingInProgress st' \<and>
        dir = ''/tmp/prof-heap42'' \<and> err = None \<and>
        st' = initial_state\<lparr>ourWrittenProfiles :=
                [\<lparr>Prof = profileHeap, Dir = ''/tmp/prof-heap42'', Start = 1000, Duration = 0\<rparr>]\<rparr>)"
proof -
  have oneoff: "OneOff profileHeap"
    by (simp add: OneOff_def)
  have idle: "\<not> profilingInProgress initial_state"
    by (simp add: profilingInProgress_def initial_state_def)
  have tmp: "fst (ioutil_TempDir [] (''prof-'' @ profileHeap) world0) = Inr ''/tmp/prof-heap42''"
    by code_simp
  have w0: "calls world0 = []" "clock world0 = 1000" "ourWrittenProfiles initial_state = []"
    by (simp_all add: world0_def initial_state_def)
  from start_oneoff_dumps [OF oneoff idle tmp, where r = None and maxDur = 10
      and startT = "mockStarter ''unused'' None" and stopT = "mockStopper ''unused''"
      and startC = "mockStarter ''unused'' None" and stopC = "mockStopper ''unused''"]
  show ?thesis using oneoff idle tmp w0 by (simp add: split_beta profilingInProgress_def)
qed

text \<open>
  Claim C4 as first stated promises the directory, no error and a session in the history
  for every start of a one-off kind. With a heap-snapshot binding that fails, the binding is
  still called once with kind \<^verbatim>\<open>heap\<close> and the fresh directory, but the start returns the
  empty directory and an error, and the history stays empty.
\<close>

theorem start_oneoff_failing_dump_counterexample:
  "case doStartProfiling profileHeap 10 (mockStarter ''unused'' None) (mockStopper ''unused'')
          (mockStarter ''unused'' None) (mockStopper ''unused'')
          (mockDumper ''dumper'' (Some (Errorf ''test''))) initial_state world0 of
     ((dir, err), st', w') \<Rightarrow>
       calls w' = [OsTempDir [] ''prof-heap'', MockDump ''dumper'' profileHeap ''/tmp/prof-heap42''] \<and>
       dir = [] \<and> err = Some (Errorf ''failed to write heap profile: test'') \<and>
       ourWrittenProfiles st' = []"
  by code_simp

section \<open>The shape of a start of a continuous kind\<close>

lemma doStartProfiling_continuous:
  assumes idle: "\<not> profilingInProgress st"
    and tmp: "ioutil_TempDir [] (''prof-'' @ profile) w = (Inr d, w1)"
    and cont: "\<not> OneOff profile"
    and t: "(if profile = profileTrace \<or> profile = profileAll
             then startT d w1 else (None, w1)) = (e2, w2)"
    and c: "(if profile = profileCPU \<or> profile = profileAll
             then startC d w2 else (None, w2)) = (e3, w3)"
  shows "doStartProfiling profile maxDur startT stopT startC stopC dump st w =
           (case e2 of
              Some err \<Rightarrow> (([], Some err), startCleanup profile d err stopT stopC st w2)
            | None \<Rightarrow>
                (case e3 of
                   Some err \<Rightarrow> (([], Some err), startCleanup profile d err stopT stopC st w3)
                 | None \<Rightarrow>
                     ((d, None),
                      st\<lparr>chans := chans st @ [[]],
                         ourCancelAutostop := Some (length (chans st)),
                         watchers := watchers st @
                           [\<lparr>wCancel = length (chans st), wDeadline = time_Now w3 + maxDur,
                             wDump = dump, wStopTrace = stopT, wStopCPU = stopC\<rparr>],
                         ourCurrentProfile :=
                           Some \<lparr>Prof = profile, Dir = d, Start = time_Now w3, Duration = 0\<rparr>\<rparr>,
                      logf (''Start writing '' @ profile @ '' profiles to '' @
                            [CHR 0x27] @ d @ [CHR 0x27]) w3)))"
proof -
  have "doStartProfiling profile maxDur startT stopT startC stopC dump st w =
          (case (e2, w2) of
             (Some err, w2) \<Rightarrow>
               (let (st', w') = startCleanup profile d err stopT stopC st w2
                in (([], Some err), st', w'))
           | (None, w2) \<Rightarrow>
               (case (if profile = profileCPU \<or> profile = profileAll
                      then startC d w2 else (None, w2)) of
                  (Some err, w3) \<Rightarrow>
                    (let (st', w') = startCleanup profile d err stopT stopC st w3
                     in (([], Some err), st', w'))
                | (None, w3) \<Rightarrow>
                    (let c = length (chans st);
                         st1 = st\<lparr>chans := chans st @ [[]], ourCancelAutostop := Some c\<rparr>;
                         st2 = st1\<lparr>watchers := watchers st1 @
                                 [\<lparr>wCancel = c,
                                   wDeadline = time_Now w3 + maxDur,
                                   wDump = dump,
                                   wStopTrace = stopT,
                                   wStopCPU = stopC\<rparr>]\<rparr>;
                         st3 = st2\<lparr>ourCurrentProfile :=
                                 Some \<lparr>Prof = profile, Dir = d,
                                       Start = time_Now w3, Duration = 0\<rparr>\<rparr>;
                         w4 = logf (''Start writing '' @ profile @ '' profiles to '' @
                                    [CHR 0x27] @ d @ [CHR 0x27]) w3
                     in ((d, None), st3, w4))))"
    unfolding doStartProfiling_def
    by (simp only: idle tmp cont if_False sum.case prod.case t)
  then show ?thesis
    by (cases e2; cases e3) (simp_all add: c Let_def split_beta del: if_split)
qed

lemma doStartProfiling_cases:
  obtains (busy) "profilingInProgress st"
  | (no_dir) e w1 where "\<not> profilingInProgress st"
      "ioutil_TempDir [] (''prof-'' @ profile) w = (Inl e, w1)"
  | (one_off) d w1 where "\<not> profilingInProgress st"
      "ioutil_TempDir [] (''prof-'' @ profile) w = (Inr d, w1)" "OneOff profile"
  | (continuous) d w1 e2 w2 e3 w3 where "\<not> profilingInProgress st"
      "ioutil_TempDir [] (''prof-'' @ profile) w = (Inr d, w1)" "\<not> OneOff profile"
      "(if profile = profileTrace \<or> profile = profileAll
        then startT d w1 else (None, w1)) = (e2, w2)"
      "(if profile = profileCPU \<or> profile = profileAll
        then startC d w2 else (None, w2)) = (e3, w3)"
proof (cases "profilingInProgress st")
  case True
  then show ?thesis by (rule busy)
next
  case idle: False
  obtain r w1 where tmp: "ioutil_TempDir [] (''prof-'' @ profile) w = (r, w1)"
    by (cases "ioutil_TempDir [] (''prof-'' @ profile) w")
  show ?thesis
  proof (cases r)
    case (Inl e)
    with idle tmp show ?thesis by (auto intro: no_dir)
  next
    case (Inr d)
    show ?thesis
    proof (cases "OneOff profile")
      case True
      with idle tmp Inr show ?thesis by (auto intro: one_off)
    next
      case False
      obtain e2 w2 where t: "(if profile = profileTrace \<or> profile = profileAll
          then startT d w1 else (None, w1)) = (e2, w2)"
        by (cases "(if profile = profileTrace \<or> profile = profileAll
          then startT d w1 else (None, w1))")
      obtain e3 w3 where c: "(if profile = profileCPU \<or> profile = profileAll
          then startC d w2 else (None, w2)) = (e3, w3)"
        by (cases "(if profile = profileCPU \<or> profile = profileAll
          then startC d w2 else (None, w2))")
      from idle tmp Inr False t c show ?thesis by (auto intro: continuous)
    qed
  qed
qed

section \<open>The written profiles only grow\<close>

lemma doStopProfiling_history:
  "ourWrittenProfiles (fst (snd (doStopProfiling dump stopT stopC st w))) = ourWrittenProfiles st \<or>
   (\<exists>p. ourWrittenProfiles (fst (snd (doStopProfiling dump stopT stopC st w))) =
          ourWrittenProfiles st @ [p])"
  by (simp add: doStopProfiling_def Let_def split: option.splits)

lemma startCleanup_history [simp]:
  "ourWrittenProfiles (fst (startCleanup profile d e stopT stopC st w)) = ourWrittenProfiles st"
  by (simp add: startCleanup_def Let_def split_beta)

lemma doStartProfiling_history:
  "ourWrittenProfiles (fst (snd (doStartProfiling profile maxDur startT stopT startC stopC dump st w))) =
     ourWrittenProfiles st \<or>
   (\<exists>p. ourWrittenProfiles (fst (snd (doStartProfiling profile maxDur startT stopT startC stopC dump st w))) =
          ourWrittenProfiles st @ [p])"
proof (cases rule: doStartProfiling_cases
    [where st = st and profile = profile and w = w and startT = startT and startC = startC])
  case busy
  then show ?thesis by (simp add: doStartProfiling_def)
next
  case (no_dir e w1)
  then show ?thesis by (simp add: doStartProfiling_def)
next
  case (one_off d w1)
  then show ?thesis
    by (simp add: doStartProfiling_def split: prod.splits option.splits)
next
  case (continuous d w1 e2 w2 e3 w3)
  show ?thesis
    unfolding doStartProfiling_continuous [where startT = startT and startC = startC, OF continuous]
    by (cases e2; cases e3) simp_all
qed

lemma step_history:
  "ourWrittenProfiles (fst (step e (st, w))) = ourWrittenProfiles st \<or>
   (\<exists>p. ourWrittenProfiles (fst (step e (st, w))) = ourWrittenProfiles st @ [p])"
proof (cases e)
  case (EvStart profile)
  then show ?thesis
    using doStartProfiling_history [of profile defautMaxProfilingDuration startWritingTrace
        trace_Stop startCPUProfiling pprof_StopCPUProfile dumpProfile st w]
    by (simp add: startProfiling_def)
next
  case EvStop
  then show ?thesis
    using doStopProfiling_history [of dumpProfile trace_Stop pprof_StopCPUProfile st w]
    by (simp add: stopProfiling_def)
next
  case (EvDoStart profile d startT stopT startC stopC dump)
  then show ?thesis
    using doStartProfiling_history [of profile d startT stopT startC stopC dump st w] by simp
next
  case (EvDoStop dump stopT stopC)
  then show ?thesis
    using doStopProfiling_history [of dump stopT stopC st w] by simp
next
  case (EvTimeout i)
  let ?g = "watchers st ! i"
  let ?st1 = "st\<lparr>watchers := remove_nth i (watchers st)\<rparr>"
  from EvTimeout show ?thesis
    using doStopProfiling_history [of "wDump ?g" "wStopTrace ?g" "wStopCPU ?g" ?st1 w]
    by (simp add: watcherTimeout_def Let_def split_beta)
next
  case (EvCancelled i)
  then show ?thesis by (simp add: watcherCancelled_def Let_def)
next
  case (EvTick n)
  then show ?thesis by simp
qed

lemma run_history:
  "\<exists>new. ourWrittenProfiles (fst (run es sw)) = ourWrittenProfiles (fst sw) @ new \<and>
          length new \<le> length es"
proof (induction es arbitrary: sw)
  case Nil
  then show ?case by simp
next
  case (Cons e es)
  obtain st w where sw: "sw = (st, w)" by (cases sw)
  from Cons.IH [of "step e sw"] obtain new where
    new: "ourWrittenProfiles (fst (run es (step e sw))) = ourWrittenProfiles (fst (step e sw)) @ new"
      "length new \<le> length es"
    by blast
  from step_history [of e st w] show ?case
  proof
    assume "ourWrittenProfiles (fst (step e (st, w))) = ourWrittenProfiles st"
    with new sw show ?thesis by auto
  next
    assume "\<exists>p. ourWrittenProfiles (fst (step e (st, w))) = ourWrittenProfiles st @ [p]"
    then obtain p where "ourWrittenProfiles (fst (step e (st, w))) = ourWrittenProfiles st @ [p]" ..
    with new sw have "ourWrittenProfiles (fst (run (e # es) sw)) =
        ourWrittenProfiles (fst sw) @ (p # new) \<and> length (p # new) \<le> length (e # es)"
      by simp
    then show ?thesis by blast
  qed
qed

text \<open>
  Claim C9. Whatever happens to the machine (a start of any kind, known or not, with the
  real or with injected bindings, a stop, a timeout of a waiting goroutine, a cancellation,
  the passing of time), the written profiles afterwards are the written profiles before,
  or those with one session appended at the end. Hence after any sequence of such events
  the old list is still there, entry by entry and in order, as a prefix of the new one,
  and the list has grown by at most one entry per event.
\<close>

theorem written_profiles_append_only:
  "(ourWrittenProfiles (fst (step e (st, w))) = ourWrittenProfiles st \<or>
    (\<exists>p. ourWrittenProfiles (fst (step e (st, w))) = ourWrittenProfiles st @ [p])) \<and>
   prefix (ourWrittenProfiles st) (ourWrittenProfiles (fst (run es (st, w)))) \<and>
   length (ourWrittenProfiles (fst (run es (st, w)))) \<le> length (ourWrittenProfiles st) + length es"
proof -
  from run_history [of es "(st, w)"] obtain new where
    "ourWrittenProfiles (fst (run es (st, w))) = ourWrittenProfiles st @ new"
    "length new \<le> length es"
    by auto
  then show ?thesis
    using step_history [of e st w] by (simp add: prefix_def)
qed

section \<open>Facts about the real bindings\<close>

lemma os_Create_clock [simp]: "clock (snd (os_Create p w)) = clock w"
  by (simp add: os_Create_def Let_def split: option.splits)

lemma startWritingTrace_clock [simp]: "clock (snd (startWritingTrace d w)) = clock w"
proof -
  obtain r w1 where c: "os_Create (filepath_Join d traceFileName) w = (r, w1)"
    by (cases "os_Create (filepath_Join d traceFileName) w")
  then have "clock w1 = clock w"
    using os_Create_clock [of "filepath_Join d traceFileName" w] by simp
  then show ?thesis
    using c by (cases r) (simp_all add: startWritingTrace_def trace_Start_def Let_def split: option.splits)
qed

lemma startCPUProfiling_clock [simp]: "clock (snd (startCPUProfiling d w)) = clock w"
proof -
  obtain r w1 where c: "os_Create (filepath_Join d cpuProfileFileName) w = (r, w1)"
    by (cases "os_Create (filepath_Join d cpuProfileFileName) w")
  then have "clock w1 = clock w"
    using os_Create_clock [of "filepath_Join d cpuProfileFileName" w] by simp
  then show ?thesis
    using c by (cases r)
      (simp_all add: startCPUProfiling_def pprof_StartCPUProfile_def Let_def split: option.splits)
qed

lemma remove_nth_last [simp]: "remove_nth (length xs) (xs @ [x]) = xs"
  by (simp add: remove_nth_def)





lemma dumpProfile_clock [simp]: "clock (snd (dumpProfile p d w)) = clock w"
proof -
  obtain r w1 where c: "os_Create (filepath_Join d (p @ ''-profile'')) w = (r, w1)"
    by (cases "os_Create (filepath_Join d (p @ ''-profile'')) w")
  then have "clock w1 = clock w"
    using os_Create_clock [of "filepath_Join d (p @ ''-profile'')" w] by simp
  then show ?thesis
    using c by (cases r)
      (simp_all add: dumpProfile_def pprof_WriteTo_def Let_def split: option.splits)
qed

lemma stop_bindings_clock [simp]:
  "clock (trace_Stop w) = clock w"
  "clock (pprof_StopCPUProfile w) = clock w"
  by (simp_all add: trace_Stop_def pprof_StopCPUProfile_def)


section \<open>The timeout\<close>



section \<open>Downloading the directory that is being written\<close>

lemma statusCode_flashError [simp]: "statusCode (flashError r m st w) = StatusBadRequest"
  by (simp add: flashError_def)

lemma statusCode_fatalError [simp]: "statusCode (fatalError r m) = StatusBadRequest"
  by (simp add: fatalError_def)



section \<open>The launcher script in the archive\<close>

lemma HasPrefix_of_longer_name:
  "length c < length dirname \<Longrightarrow> \<not> strings_HasPrefix c dirname"
  by (simp add: strings_HasPrefix_def)

lemma HasPrefix_swapped_on_session_directory:
  "sfx \<noteq> [] \<Longrightarrow> \<not> strings_HasPrefix ''prof-trace'' (''prof-trace'' @ sfx)"
  "sfx \<noteq> [] \<Longrightarrow> \<not> strings_HasPrefix ''prof-all'' (''prof-all'' @ sfx)"
  by (simp_all add: strings_HasPrefix_def)

text \<open>
  Claim C1. The claim does not hold of \<^verbatim>\<open>packProfiles\<close>. Its test calls
  \<^verbatim>\<open>strings.HasPrefix("prof-trace", dirname)\<close>, which asks whether the constant begins with
  the directory name, not whether the directory name begins with the constant. For the
  directory of a trace session, named \<^verbatim>\<open>prof-trace\<close> plus a random suffix, the test as written
  is false although the name does carry the prefix; the directory holds the single file
  \<^verbatim>\<open>trace\<close>, and so the launcher script goes into the archive. The theorem runs a trace
  session to its end and packs its directory: the archive holds the executable, the trace
  and \<^verbatim>\<open>show-web\<close>, whose script names the executable and the trace file.
\<close>

theorem packProfiles_trace_directory_gets_launcher:
  "strings_HasPrefix ''prof-trace42'' ''prof-trace'' \<and>
   \<not> strings_HasPrefix ''prof-trace'' ''prof-trace42'' \<and>
   filepath_Base ''/tmp/prof-trace42'' = ''prof-trace42'' \<and>
   (case packProfiles ''/tmp/prof-trace42''
           (snd (run [EvStart profileTrace, EvTick 5, EvStop] (initial_state, world0))) of
      (Inl err, w) \<Rightarrow> False
    | (Inr a, w) \<Rightarrow>
        map teName a = [''app'', ''trace'', ''show-web''] \<and>
        teBody (last a) =
          ''#!/bin/bash'' @ [CHR 0x0A] @ ''cd $(dirname $0)'' @ [CHR 0x0A] @
          ''go tool pprof -web app trace'')"
  by code_simp

end
